theory Spec2Isabelle
  imports
    Main
    "HOL-Library.AList"
    "HOL-Library.Multiset"
    "HOL-Library.Char_ord"
    "HOL-Library.List_Lexorder"
begin

section \<open>Data model\<close>

text \<open>
  The server of \<^verbatim>\<open>multiple_layers.py\<close> keeps three module-level values: the constant
  registry \<^verbatim>\<open>FIELD_MAPPING\<close>, the list \<^verbatim>\<open>AVAILABLE_LAYERS\<close> computed once when the module
  is loaded, and the dictionary \<^verbatim>\<open>geodata_cache\<close>. Python dictionaries keep insertion
  order, so a policy and a feature's properties are association lists; the cache is only
  ever looked up by key, so it is a map.
\<close>

type_synonym policy = "(string \<times> string) list"

type_synonym 'v props = "(string \<times> 'v) list"

text \<open>
  The document produced by \<^verbatim>\<open>json.loads(gdf.to_json())\<close> is a GeoJSON feature
  collection: attribute values and geometries are never inspected by the program, so they
  are type parameters.
\<close>

record ('v, 'g) feature =
  f_id :: string
  f_type :: string
  f_properties :: "'v props"
  f_geometry :: 'g

record ('v, 'g) geojson =
  g_type :: string
  g_features :: "('v, 'g) feature list"

datatype exn = Exception string

text \<open>One constructor for each \<^verbatim>\<open>print\<close> statement of the source.\<close>

datatype msg =
    MsgDirNotFound string
  | MsgDiscovered "string list"
  | MsgProcessingFile string
  | MsgMappingDetails policy
  | MsgCreated string
  | MsgErrorWriting string
  | MsgLoading string string
  | MsgLayerName string
  | MsgApplying string
  | MsgNoMapping string
  | MsgSaved string
  | MsgErrorSaving string
  | MsgLoaded string
  | MsgCritical string exn
  | MsgTraceback

text \<open>What the process does to the outside, in the order it does it.\<close>

datatype event =
    EvIsDir string
  | EvListDir string
  | EvReadFile string
  | EvWriteFile string string
  | EvPrint msg

text \<open>
  The outside of the program: the file system and the libraries (GeoPandas, json) whose
  calls may raise. A failing call returns \<open>Inl\<close>. \<open>open_w p\<close> tells whether opening
  \<open>p\<close> for writing and writing to it succeeds (otherwise it raises \<^verbatim>\<open>IOError\<close>).
  \<open>listdir\<close> is consulted only for a path that \<open>isdir\<close> accepts.
\<close>

record ('gdf, 'v, 'g) world =
  isdir :: "string \<Rightarrow> bool"
  listdir :: "string \<Rightarrow> string list"
  read_file :: "string \<Rightarrow> string \<Rightarrow> exn + 'gdf"
  to_crs :: "'gdf \<Rightarrow> nat \<Rightarrow> exn + 'gdf"
  to_json :: "'gdf \<Rightarrow> exn + string"
  json_loads :: "string \<Rightarrow> exn + ('v, 'g) geojson"
  json_dumps :: "('v, 'g) geojson \<Rightarrow> exn + string"
  open_w :: "string \<Rightarrow> bool"

record state =
  AVAILABLE_LAYERS :: "string list"
  geodata_cache :: "string \<rightharpoonup> string"
  trace :: "event list"

text \<open>
  \<open>JsonBody d code\<close> is \<^verbatim>\<open>jsonify(d), code\<close>; \<open>Response body code mimetype\<close> is
  \<^verbatim>\<open>app.response_class(response=body, status=code, mimetype=mimetype)\<close>.
\<close>

datatype response =
    JsonBody "(string \<times> string) list" nat
  | Response string nat string

section \<open>Configuration\<close>

definition SHAPEFILE_FOLDER :: string where
  "SHAPEFILE_FOLDER = ''data''"

definition FIELD_MAPPING :: "(string \<times> policy) list" where
  "FIELD_MAPPING =
    [(''Ohio_County_Boundaries'',
        [(''name'', ''County Name''), (''county_sea'', ''County Seat'')]),
     (''Ohio_Senate_Districts_2024_to_2032'',
        [(''district'', ''Senate District #'')]),
     (''Ohio_House_Districts_2024_to__2032'',
        [(''district'', ''House District #'')]),
     (''Ohio_Municipal_Boundaries'',
        [(''municipali'', ''Municipality Name''), (''sq_mi'', ''Area (square miles)'')]),
     (''Ohio_Township_Boundaries'',
        [(''twp_name'', ''Township Name''), (''sqmi_area'', ''Area (square miles)'')])]"

section \<open>Library functions the source calls\<close>

text \<open>\<^verbatim>\<open>str.endswith\<close>.\<close>

definition endswith :: "string \<Rightarrow> string \<Rightarrow> bool" where
  "endswith s suffix =
     (length suffix \<le> length s \<and> drop (length s - length suffix) s = suffix)"

text \<open>\<^verbatim>\<open>str.rfind\<close> for a single character: the last index, or \<open>-1\<close>.\<close>

definition rfind :: "string \<Rightarrow> char \<Rightarrow> int" where
  "rfind p c =
     (if c \<in> set p
      then int (length p) - 1 - int (length (takeWhile (\<lambda>x. x \<noteq> c) (rev p)))
      else - 1)"

text \<open>
  \<^verbatim>\<open>os.path.splitext\<close> on POSIX (\<^verbatim>\<open>genericpath._splitext\<close> with separator \<^verbatim>\<open>/\<close>): the
  path is split at its last dot, unless that dot is before the last separator or only
  dots stand between the separator and it (leading dots belong to the root).
\<close>

definition splitext :: "string \<Rightarrow> string \<times> string" where
  "splitext p =
     (let sepIndex = rfind p (CHR ''/'');
          dotIndex = rfind p (CHR ''.'')
      in if dotIndex > sepIndex \<and>
            list_ex (\<lambda>c. c \<noteq> CHR ''.'')
              (take (nat (dotIndex - (sepIndex + 1))) (drop (nat (sepIndex + 1)) p))
         then (take (nat dotIndex) p, drop (nat dotIndex) p)
         else (p, []))"

text \<open>\<^verbatim>\<open>os.path.join\<close> of two components on POSIX.\<close>

definition path_join :: "string \<Rightarrow> string \<Rightarrow> string" where
  "path_join a b =
     (if b \<noteq> [] \<and> hd b = CHR ''/'' then b
      else if a = [] \<or> last a = CHR ''/'' then a @ b
      else a @ ''/'' @ b)"

section \<open>Discovery\<close>

text \<open>
  \<^verbatim>\<open>discover_shapefiles\<close>: the loop appends the root of every entry whose name ends in
  \<^verbatim>\<open>.shp\<close>; the result is \<^verbatim>\<open>sorted(shapefiles)\<close>, the printed list is the unsorted one.
\<close>

definition discover_step :: "string list \<Rightarrow> string \<Rightarrow> string list" where
  "discover_step shapefiles filename =
     (if endswith filename ''.shp'' then shapefiles @ [fst (splitext filename)]
      else shapefiles)"

definition discover_shapefiles ::
  "('gdf, 'v, 'g) world \<Rightarrow> string \<Rightarrow> string list \<times> event list" where
  "discover_shapefiles w directory =
     (if \<not> isdir w directory
      then ([], [EvIsDir directory, EvPrint (MsgDirNotFound directory)])
      else
        let shapefiles = foldl discover_step [] (listdir w directory)
        in (sort shapefiles,
            [EvIsDir directory, EvListDir directory, EvPrint (MsgDiscovered shapefiles)]))"

text \<open>An entry whose name is only dots followed by \<^verbatim>\<open>shp\<close>, such as \<^verbatim>\<open>.shp\<close>.\<close>

definition dots_only_stem :: "string \<Rightarrow> bool" where
  "dots_only_stem filename =
     (endswith filename ''.shp'' \<and>
      list_all (\<lambda>c. c = CHR ''.'') (take (length filename - 4) filename))"

section \<open>The start-up loop over the registry\<close>

definition newline :: string where
  "newline = [CHR 0x0A]"

definition mapping_file_text :: "string \<Rightarrow> policy \<Rightarrow> string" where
  "mapping_file_text filename_key field_details =
     ''This file is for '' @ filename_key @ ''.'' @ newline @
     (if field_details \<noteq> []
      then ''Field mappings:'' @ newline @
           concat (map (\<lambda>(original_field, display_name).
                      ''  - '' @ original_field @ '': '' @ display_name @ newline)
                    field_details)
      else ''No specific field mappings defined.'' @ newline)"

definition write_mapping_file ::
  "('gdf, 'v, 'g) world \<Rightarrow> string \<times> policy \<Rightarrow> event list" where
  "write_mapping_file w entry =
     (case entry of (filename_key, field_details) \<Rightarrow>
        let filename = filename_key @ ''.txt''
        in [EvPrint (MsgProcessingFile filename), EvPrint (MsgMappingDetails field_details)] @
           (if open_w w filename
            then [EvWriteFile filename (mapping_file_text filename_key field_details),
                  EvPrint (MsgCreated filename)]
            else [EvPrint (MsgErrorWriting filename)]))"

text \<open>Loading the module: discovery, then the loop over \<^verbatim>\<open>FIELD_MAPPING.items()\<close>.\<close>

definition startup :: "('gdf, 'v, 'g) world \<Rightarrow> state" where
  "startup w =
     (case discover_shapefiles w SHAPEFILE_FOLDER of (layers, evs) \<Rightarrow>
        \<lparr>AVAILABLE_LAYERS = layers,
         geodata_cache = Map.empty,
         trace = evs @ concat (map (write_mapping_file w) FIELD_MAPPING)\<rparr>)"

section \<open>Field mapping\<close>

text \<open>One pass of the loop over \<^verbatim>\<open>mapping.items()\<close>.\<close>

definition rename_step :: "'v props \<Rightarrow> 'v props \<Rightarrow> string \<times> string \<Rightarrow> 'v props" where
  "rename_step original_properties new_properties item =
     (case item of (original_key, new_key) \<Rightarrow>
        if original_key = ''__title__'' then new_properties
        else (case map_of original_properties original_key of
                Some v \<Rightarrow> AList.update new_key v new_properties
              | None \<Rightarrow> new_properties))"

text \<open>
  The body of the loop over the features: \<^verbatim>\<open>new_properties\<close> starts empty, receives
  \<^verbatim>\<open>Title\<close> when \<^verbatim>\<open>title_field\<close> is truthy and a key of the original properties, and then
  the renamed entries.
\<close>

definition title_properties :: "string option \<Rightarrow> 'v props \<Rightarrow> 'v props" where
  "title_properties title_field original_properties =
     (case title_field of
        None \<Rightarrow> []
      | Some t \<Rightarrow>
          if t \<noteq> [] then
            (case map_of original_properties t of
               Some v \<Rightarrow> [(''Title'', v)]
             | None \<Rightarrow> [])
          else [])"

definition map_properties :: "policy \<Rightarrow> 'v props \<Rightarrow> 'v props" where
  "map_properties mapping original_properties =
     foldl (rename_step original_properties)
       (title_properties (map_of mapping ''__title__'') original_properties)
       mapping"

text \<open>\<^verbatim>\<open>if mapping:\<close> holds for a dictionary that is present and not empty.\<close>

definition truthy :: "policy option \<Rightarrow> bool" where
  "truthy mapping = (case mapping of None \<Rightarrow> False | Some m \<Rightarrow> m \<noteq> [])"

definition apply_field_mapping ::
  "string \<Rightarrow> policy option \<Rightarrow> ('v, 'g) geojson \<Rightarrow> ('v, 'g) geojson \<times> event list" where
  "apply_field_mapping layer_name mapping geodata_json =
     (case mapping of
        Some m \<Rightarrow>
          if truthy mapping
          then (geodata_json\<lparr>g_features :=
                   map (\<lambda>feature. feature\<lparr>f_properties :=
                          map_properties m (f_properties feature)\<rparr>)
                     (g_features geodata_json)\<rparr>,
                [EvPrint (MsgApplying layer_name)])
          else (geodata_json, [EvPrint (MsgNoMapping layer_name)])
      | None \<Rightarrow> (geodata_json, [EvPrint (MsgNoMapping layer_name)]))"

section \<open>The request handler\<close>

text \<open>
  The part of the \<^verbatim>\<open>try\<close> block up to \<^verbatim>\<open>json.dumps\<close>: every call that may raise. The
  result is the exception or the processed string, with the events so far.
\<close>

definition pipeline ::
  "('gdf, 'v, 'g) world \<Rightarrow> string \<Rightarrow> (exn + string) \<times> event list" where
  "pipeline w layer_name =
     (let shapefile_path = path_join SHAPEFILE_FOLDER (layer_name @ ''.shp'');
          ev0 = [EvPrint (MsgLoading layer_name shapefile_path), EvReadFile shapefile_path]
      in case read_file w shapefile_path ''utf-8'' of
           Inl e \<Rightarrow> (Inl e, ev0)
         | Inr gdf \<Rightarrow>
        (case to_crs w gdf 4326 of
           Inl e \<Rightarrow> (Inl e, ev0)
         | Inr gdf' \<Rightarrow>
        (let ev1 = ev0 @ [EvPrint (MsgLayerName layer_name)];
             mapping = map_of FIELD_MAPPING layer_name
         in case to_json w gdf' of
              Inl e \<Rightarrow> (Inl e, ev1)
            | Inr geojson_string \<Rightarrow>
           (case json_loads w geojson_string of
              Inl e \<Rightarrow> (Inl e, ev1)
            | Inr geodata_json \<Rightarrow>
           (case apply_field_mapping layer_name mapping geodata_json of
              (mapped, ev_m) \<Rightarrow>
           (case json_dumps w mapped of
              Inl e \<Rightarrow> (Inl e, ev1 @ ev_m)
            | Inr processed_json_string \<Rightarrow>
                (Inr processed_json_string, ev1 @ ev_m)))))))"

text \<open>The copy of the payload written to the file named after the layer.\<close>

definition save_copy :: "('gdf, 'v, 'g) world \<Rightarrow> string \<Rightarrow> string \<Rightarrow> event list" where
  "save_copy w file_name processed_json_string =
     (if open_w w file_name
      then [EvWriteFile file_name processed_json_string, EvPrint (MsgSaved file_name)]
      else [EvPrint (MsgErrorSaving file_name)])"

definition get_geodata ::
  "('gdf, 'v, 'g) world \<Rightarrow> string \<Rightarrow> state \<Rightarrow> response \<times> state" where
  "get_geodata w layer_name s =
     (if layer_name \<notin> set (AVAILABLE_LAYERS s)
      then (JsonBody [(''error'', ''Layer not found'')] 404, s)
      else case geodata_cache s layer_name of
        Some cached \<Rightarrow> (Response cached 200 ''application/json'', s)
      | None \<Rightarrow>
         (case pipeline w layer_name of
            (Inr processed_json_string, evs) \<Rightarrow>
              (Response processed_json_string 200 ''application/json'',
               s\<lparr>geodata_cache := (geodata_cache s)(layer_name \<mapsto> processed_json_string),
                 trace := trace s @ evs @ save_copy w layer_name processed_json_string @
                          [EvPrint (MsgLoaded layer_name)]\<rparr>)
          | (Inl e, evs) \<Rightarrow>
              (JsonBody [(''error'', ''Could not load data for layer: '' @ layer_name)] 500,
               s\<lparr>trace := trace s @ evs @
                          [EvPrint (MsgCritical layer_name e), EvPrint MsgTraceback]\<rparr>)))"

text \<open>\<^verbatim>\<open>get_layers\<close> answers with the list computed at start-up.\<close>

definition get_layers :: "state \<Rightarrow> string list \<times> nat" where
  "get_layers s = (AVAILABLE_LAYERS s, 200)"

text \<open>
  A run of the server: requests handled one after the other, each against the outside
  world as it is at that moment.
\<close>

fun serve ::
  "(('gdf, 'v, 'g) world \<times> string) list \<Rightarrow> state \<Rightarrow> response list \<times> state" where
  "serve [] s = ([], s)"
| "serve ((w, layer_name) # reqs) s =
     (case get_geodata w layer_name s of (r, s') \<Rightarrow>
        (case serve reqs s' of (rs, s'') \<Rightarrow> (r # rs, s'')))"

text \<open>Observations on a trace: the files written, and the number of loads from disk.\<close>

definition file_writes :: "event list \<Rightarrow> (string \<times> string) list" where
  "file_writes evs =
     concat (map (\<lambda>e. case e of EvWriteFile p c \<Rightarrow> [(p, c)] | _ \<Rightarrow> []) evs)"

definition load_count :: "event list \<Rightarrow> nat" where
  "load_count evs = length (filter (\<lambda>e. case e of EvReadFile p \<Rightarrow> True | _ \<Rightarrow> False) evs)"

section \<open>Sample deployments\<close>

text \<open>
  A data directory with three shapefiles: one without a registry entry, one with the
  Senate policy, and one whose file cannot be read. A dataset is named by a number; the
  serialiser writes the properties of each feature.
\<close>

definition zoning_doc :: "(string, string) geojson" where
  "zoning_doc =
     \<lparr>g_type = ''FeatureCollection'',
      g_features =
        [\<lparr>f_id = ''0'', f_type = ''Feature'',
          f_properties = [(''zone'', ''R1''), (''acres'', ''40'')],
          f_geometry = ''POINT (-83 40)''\<rparr>]\<rparr>"

definition senate_doc :: "(string, string) geojson" where
  "senate_doc =
     \<lparr>g_type = ''FeatureCollection'',
      g_features =
        [\<lparr>f_id = ''0'', f_type = ''Feature'',
          f_properties = [(''district'', ''12''), (''other'', ''ignored'')],
          f_geometry = ''POINT (-82 39)''\<rparr>]\<rparr>"

definition render :: "(string, string) geojson \<Rightarrow> string" where
  "render doc =
     concat (map (\<lambda>f. f_id f @ '':'' @
                     concat (map (\<lambda>(k, v). k @ ''='' @ v @ '';'') (f_properties f)) @
                     f_geometry f @ ''|'')
               (g_features doc))"

definition demo_world :: "(nat, string, string) world" where
  "demo_world =
     \<lparr>isdir = (\<lambda>d. d = ''data''),
      listdir = (\<lambda>d. [''Zoning.shp'', ''Zoning.dbf'', ''Broken.shp'',
                       ''Ohio_Senate_Districts_2024_to_2032.shp'']),
      read_file = (\<lambda>p enc.
         if p = ''data/Zoning.shp'' then Inr 1
         else if p = ''data/Ohio_Senate_Districts_2024_to_2032.shp'' then Inr 2
         else Inl (Exception ''cannot open'')),
      to_crs = (\<lambda>gdf epsg. Inr gdf),
      to_json = (\<lambda>gdf. Inr (if gdf = 1 then ''zoning'' else ''senate'')),
      json_loads = (\<lambda>s.
         if s = ''zoning'' then Inr zoning_doc
         else if s = ''senate'' then Inr senate_doc
         else Inl (Exception ''bad json'')),
      json_dumps = (\<lambda>doc. Inr (render doc)),
      open_w = (\<lambda>p. True)\<rparr>"

text \<open>A data directory that holds the two entries \<^verbatim>\<open>.shp\<close> and \<^verbatim>\<open>.shp.shp\<close>.\<close>

definition dotfile_world :: "(nat, string, string) world" where
  "dotfile_world = demo_world\<lparr>listdir := (\<lambda>d. [''.shp'', ''.shp.shp''])\<rparr>"

section \<open>Facts about the sample deployment\<close>

lemma demo_layers:
  "AVAILABLE_LAYERS (startup demo_world) =
     [''Broken'', ''Ohio_Senate_Districts_2024_to_2032'', ''Zoning'']"
  by code_simp

lemma demo_cache_empty: "geodata_cache (startup demo_world) = Map.empty"
  by (simp add: startup_def split: prod.splits)

lemma demo_zoning_response:
  "fst (get_geodata demo_world ''Zoning'' (startup demo_world)) =
     Response ''0:zone=R1;acres=40;POINT (-83 40)|'' 200 ''application/json''"
  by code_simp

lemma demo_broken_pipeline:
  "fst (pipeline demo_world ''Broken'') = Inl (Exception ''cannot open'')"
  by code_simp

section \<open>The handler and the cache\<close>

lemma get_geodata_layers [simp]:
  "AVAILABLE_LAYERS (snd (get_geodata w layer_name s)) = AVAILABLE_LAYERS s"
  by (simp add: get_geodata_def split: option.splits prod.splits sum.splits)

lemma get_geodata_keeps_entry:
  "geodata_cache s x = Some p \<Longrightarrow>
   geodata_cache (snd (get_geodata w layer_name s)) x = Some p"
  by (auto simp: get_geodata_def split: option.splits prod.splits sum.splits)

lemma serve_Cons_snd:
  "snd (serve ((w, layer_name) # reqs) s) = snd (serve reqs (snd (get_geodata w layer_name s)))"
  by (simp split: prod.splits)

lemma serve_layers [simp]: "AVAILABLE_LAYERS (snd (serve reqs s)) = AVAILABLE_LAYERS s"
proof (induction reqs arbitrary: s)
  case Nil
  show ?case by simp
next
  case (Cons req reqs)
  obtain w layer_name where req: "req = (w, layer_name)" by (cases req)
  show ?case unfolding req serve_Cons_snd using Cons.IH by simp
qed

lemma serve_keeps_entry:
  "geodata_cache s x = Some p \<Longrightarrow> geodata_cache (snd (serve reqs s)) x = Some p"
proof (induction reqs arbitrary: s)
  case Nil
  then show ?case by simp
next
  case (Cons req reqs)
  obtain w layer_name where req: "req = (w, layer_name)" by (cases req)
  show ?case unfolding req serve_Cons_snd
    by (rule Cons.IH [OF get_geodata_keeps_entry [OF Cons.prems]])
qed

lemma get_geodata_ok_cached:
  assumes "get_geodata w x s = (Response p code mt, s1)"
  shows "x \<in> set (AVAILABLE_LAYERS s1) \<and> geodata_cache s1 x = Some p"
  using assms
  by (auto simp: get_geodata_def split: if_splits option.splits prod.splits sum.splits)

lemma load_count_Nil [simp]: "load_count [] = 0"
  by (simp add: load_count_def)

lemma load_count_Cons [simp]:
  "load_count (e # es) = (case e of EvReadFile p \<Rightarrow> 1 | _ \<Rightarrow> 0) + load_count es"
  by (cases e) (simp_all add: load_count_def)

lemma load_count_append [simp]: "load_count (xs @ ys) = load_count xs + load_count ys"
  by (simp add: load_count_def)

lemma save_copy_load_count [simp]: "load_count (save_copy w f c) = 0"
  by (simp add: save_copy_def)

lemma apply_field_mapping_load_count:
  "apply_field_mapping l m d = (d', evs) \<Longrightarrow> load_count evs = 0"
  by (auto simp: apply_field_mapping_def split: option.splits if_splits)

text \<open>Every run of the pipeline reads the shapefile once, whether it succeeds or not.\<close>

lemma pipeline_load_count: "load_count (snd (pipeline w layer_name)) = 1"
  by (auto simp: pipeline_def Let_def split: sum.splits prod.splits
        dest: apply_field_mapping_load_count)

lemma get_geodata_miss_load_count:
  assumes "layer_name \<in> set (AVAILABLE_LAYERS s)" "geodata_cache s layer_name = None"
  shows "load_count (trace (snd (get_geodata w layer_name s))) = load_count (trace s) + 1"
proof -
  obtain r evs where p: "pipeline w layer_name = (r, evs)" by (cases "pipeline w layer_name")
  have "load_count evs = 1" using pipeline_load_count [of w layer_name] p by simp
  then show ?thesis using assms p
    by (cases r) (simp_all add: get_geodata_def)
qed

text \<open>
  The pipeline raises exactly when one of its five library calls raises: reading the
  file, reprojecting, serialising, parsing, or serialising the mapped document.
\<close>

lemma pipeline_Inl_iff:
  "fst (pipeline w layer_name) = Inl e \<longleftrightarrow>
     (let shapefile_path = path_join SHAPEFILE_FOLDER (layer_name @ ''.shp'') in
      read_file w shapefile_path ''utf-8'' = Inl e \<or>
      (\<exists>gdf. read_file w shapefile_path ''utf-8'' = Inr gdf \<and>
         (to_crs w gdf 4326 = Inl e \<or>
          (\<exists>gdf'. to_crs w gdf 4326 = Inr gdf' \<and>
             (to_json w gdf' = Inl e \<or>
              (\<exists>js. to_json w gdf' = Inr js \<and>
                 (json_loads w js = Inl e \<or>
                  (\<exists>doc. json_loads w js = Inr doc \<and>
                     json_dumps w
                       (fst (apply_field_mapping layer_name
                              (map_of FIELD_MAPPING layer_name) doc)) = Inl e))))))))"
  by (auto simp: pipeline_def Let_def split: sum.splits prod.splits)



text \<open>
  C2. Once a request for \<open>x\<close> has been answered with a payload \<open>p\<close>, then after any
  further requests \<open>reqs\<close> (for any layers, against any state of the file system) the
  cache still holds \<open>p\<close> for \<open>x\<close>, and a request for \<open>x\<close> is answered with the same
  \<open>p\<close> and returns the state as it was: no event is added to the trace, so the pipeline
  is not run again.
\<close>

theorem cached_payload_stable:
  assumes "get_geodata w x s = (Response p code mt, s1)"
  shows "geodata_cache (snd (serve reqs s1)) x = Some p \<and>
         get_geodata w' x (snd (serve reqs s1)) =
           (Response p 200 ''application/json'', snd (serve reqs s1))"
proof -
  from get_geodata_ok_cached [OF assms]
  have a: "x \<in> set (AVAILABLE_LAYERS s1)" and c: "geodata_cache s1 x = Some p" by simp_all
  have c': "geodata_cache (snd (serve reqs s1)) x = Some p"
    by (rule serve_keeps_entry [OF c])
  have a': "x \<in> set (AVAILABLE_LAYERS (snd (serve reqs s1)))" using a by simp
  show ?thesis using a' c' by (simp add: get_geodata_def)
qed

theorem cached_payload_stable_witness:
  "get_geodata demo_world ''Zoning'' (startup demo_world) =
     (Response ''0:zone=R1;acres=40;POINT (-83 40)|'' 200 ''application/json'',
      snd (get_geodata demo_world ''Zoning'' (startup demo_world))) \<and>
   geodata_cache
     (snd (serve [(demo_world, ''Broken''), (dotfile_world, ''Zoning'')]
        (snd (get_geodata demo_world ''Zoning'' (startup demo_world))))) ''Zoning'' =
     Some ''0:zone=R1;acres=40;POINT (-83 40)|'' \<and>
   get_geodata dotfile_world ''Zoning''
     (snd (serve [(demo_world, ''Broken''), (dotfile_world, ''Zoning'')]
        (snd (get_geodata demo_world ''Zoning'' (startup demo_world))))) =
     (Response ''0:zone=R1;acres=40;POINT (-83 40)|'' 200 ''application/json'',
      snd (serve [(demo_world, ''Broken''), (dotfile_world, ''Zoning'')]
        (snd (get_geodata demo_world ''Zoning'' (startup demo_world)))))"
proof -
  have h: "get_geodata demo_world ''Zoning'' (startup demo_world) =
     (Response ''0:zone=R1;acres=40;POINT (-83 40)|'' 200 ''application/json'',
      snd (get_geodata demo_world ''Zoning'' (startup demo_world)))"
    using demo_zoning_response by (simp add: prod_eq_iff)
  show ?thesis
    using h cached_payload_stable [OF h,
      of "[(demo_world, ''Broken''), (dotfile_world, ''Zoning'')]" dotfile_world]
    by simp
qed

text \<open>
  C6. When the pipeline raises for a discovered, uncached layer (at whichever step, see
  \<open>pipeline_Inl_iff\<close>), the answer is 500 with the body
  \<^verbatim>\<open>{"error": "Could not load data for layer: <layerName>"}\<close>, the cache and the list of
  layers are unchanged, and the next request for the same layer runs the pipeline again:
  it reads the shapefile once more.
\<close>

theorem failed_load_leaves_cache:
  assumes "layer_name \<in> set (AVAILABLE_LAYERS s)"
    and "geodata_cache s layer_name = None"
    and "fst (pipeline w layer_name) = Inl e"
  shows "fst (get_geodata w layer_name s) =
           JsonBody [(''error'', ''Could not load data for layer: '' @ layer_name)] 500 \<and>
         geodata_cache (snd (get_geodata w layer_name s)) = geodata_cache s \<and>
         AVAILABLE_LAYERS (snd (get_geodata w layer_name s)) = AVAILABLE_LAYERS s \<and>
         load_count (trace (snd (get_geodata w' layer_name (snd (get_geodata w layer_name s))))) =
           load_count (trace (snd (get_geodata w layer_name s))) + 1"
proof -
  let ?s' = "snd (get_geodata w layer_name s)"
  obtain evs where p: "pipeline w layer_name = (Inl e, evs)"
    using assms(3) by (cases "pipeline w layer_name") simp
  have r: "fst (get_geodata w layer_name s) =
           JsonBody [(''error'', ''Could not load data for layer: '' @ layer_name)] 500"
    using assms(1,2) p by (simp add: get_geodata_def)
  have c: "geodata_cache ?s' = geodata_cache s"
    using assms(1,2) p by (simp add: get_geodata_def)
  have a: "AVAILABLE_LAYERS ?s' = AVAILABLE_LAYERS s" by simp
  have "load_count (trace (snd (get_geodata w' layer_name ?s'))) = load_count (trace ?s') + 1"
    by (rule get_geodata_miss_load_count) (simp_all add: assms(1,2) c)
  with r c a show ?thesis by simp
qed

theorem failed_load_leaves_cache_witness:
  "''Broken'' \<in> set (AVAILABLE_LAYERS (startup demo_world)) \<and>
   geodata_cache (startup demo_world) ''Broken'' = None \<and>
   fst (pipeline demo_world ''Broken'') = Inl (Exception ''cannot open'') \<and>
   fst (get_geodata demo_world ''Broken'' (startup demo_world)) =
     JsonBody [(''error'', ''Could not load data for layer: Broken'')] 500 \<and>
   geodata_cache (snd (get_geodata demo_world ''Broken'' (startup demo_world))) =
     geodata_cache (startup demo_world) \<and>
   load_count (trace (snd (get_geodata demo_world ''Broken''
       (snd (get_geodata demo_world ''Broken'' (startup demo_world)))))) =
     load_count (trace (snd (get_geodata demo_world ''Broken'' (startup demo_world)))) + 1"
proof -
  have h1: "''Broken'' \<in> set (AVAILABLE_LAYERS (startup demo_world))"
    by (simp add: demo_layers)
  have h2: "geodata_cache (startup demo_world) ''Broken'' = None"
    by (simp add: demo_cache_empty)
  note h3 = demo_broken_pipeline
  show ?thesis
    using h1 h2 h3 failed_load_leaves_cache [OF h1 h2 h3, of demo_world] by simp
qed

end
